theory Spec2Isabelle
  imports Complex_Main "HOL-Library.Monad_Syntax"
begin

section \<open>Python values and strings\<close>

text \<open>
  The pipeline is written in Python. Floats are modelled as real numbers, unbounded
  integers as \<open>int\<close>, and \<open>str\<close> as \<open>string\<close>. The string operations the
  scorer uses are substring search (\<open>needle in haystack\<close>) and \<open>str.lower()\<close>,
  the latter on the ASCII letters.
\<close>

datatype py_error = TypeError | KeyError | AttributeError | ValueError | ValidationError

fun starts_with :: "string \<Rightarrow> string \<Rightarrow> bool" where
  "starts_with [] s = True"
| "starts_with (c # cs) [] = False"
| "starts_with (c # cs) (d # ds) = (c = d \<and> starts_with cs ds)"

text \<open>\<open>str_in needle s\<close> is Python's \<open>needle in s\<close> on strings.\<close>

fun str_in :: "string \<Rightarrow> string \<Rightarrow> bool" where
  "str_in needle [] = (needle = [])"
| "str_in needle (d # ds) = (starts_with needle (d # ds) \<or> str_in needle ds)"

text \<open>\<open>str.lower()\<close>, letter by letter; a character that is no capital ASCII letter stays.\<close>

definition lower_char :: "char \<Rightarrow> char" where
  "lower_char c =
     (case map_of (zip ''ABCDEFGHIJKLMNOPQRSTUVWXYZ'' ''abcdefghijklmnopqrstuvwxyz'') c of
        Some d \<Rightarrow> d
      | None \<Rightarrow> c)"

definition lower :: "string \<Rightarrow> string" where
  "lower s = map lower_char s"

text \<open>\<open>any(word in s for word in words)\<close>.\<close>

definition any_in :: "string list \<Rightarrow> string \<Rightarrow> bool" where
  "any_in words s = list_ex (\<lambda>word. str_in word s) words"

section \<open>Confidence scoring (services/confidence\_scoring.py)\<close>

subsection \<open>ConfidenceFactors.get\_weighted\_score\<close>

record ConfidenceFactors =
  source_reliability :: real
  source_diversity :: real
  data_freshness :: real
  pattern_match_score :: real
  pattern_specificity :: real
  method_agreement :: real
  historical_accuracy :: real
  data_completeness :: real
  data_consistency :: real
  domain_specificity :: real
  contextual_coherence :: real

text \<open>The weight table built when \<open>weights is None\<close>, in the order of the dict literal.\<close>

definition default_weights :: "(string \<times> real) list" where
  "default_weights =
     [(''source_reliability'', 20 / 100),
      (''source_diversity'', 10 / 100),
      (''data_freshness'', 5 / 100),
      (''pattern_match_score'', 15 / 100),
      (''pattern_specificity'', 10 / 100),
      (''method_agreement'', 15 / 100),
      (''historical_accuracy'', 10 / 100),
      (''data_completeness'', 10 / 100),
      (''data_consistency'', 10 / 100),
      (''domain_specificity'', 15 / 100),
      (''contextual_coherence'', 10 / 100)]"

text \<open>
  \<open>hasattr(self, factor)\<close> and \<open>getattr(self, factor)\<close>: a key of the weight table
  names one of the eleven fields, or the method \<open>get_weighted_score\<close> itself (then
  \<open>factor_value * weight\<close> raises TypeError), or nothing the object has (the key is
  skipped). Attributes inherited from \<open>object\<close> are not modelled.
\<close>

datatype attr = Field real | Method | Absent

definition getattr_factor :: "ConfidenceFactors \<Rightarrow> string \<Rightarrow> attr" where
  "getattr_factor f name =
     (if name = ''source_reliability'' then Field (source_reliability f)
      else if name = ''source_diversity'' then Field (source_diversity f)
      else if name = ''data_freshness'' then Field (data_freshness f)
      else if name = ''pattern_match_score'' then Field (pattern_match_score f)
      else if name = ''pattern_specificity'' then Field (pattern_specificity f)
      else if name = ''method_agreement'' then Field (method_agreement f)
      else if name = ''historical_accuracy'' then Field (historical_accuracy f)
      else if name = ''data_completeness'' then Field (data_completeness f)
      else if name = ''data_consistency'' then Field (data_consistency f)
      else if name = ''domain_specificity'' then Field (domain_specificity f)
      else if name = ''contextual_coherence'' then Field (contextual_coherence f)
      else if name = ''get_weighted_score'' then Method
      else Absent)"

text \<open>The \<open>for factor, weight in weights.items()\<close> loop over \<open>(score, total_weight)\<close>.\<close>

fun weighted_loop ::
  "ConfidenceFactors \<Rightarrow> (string \<times> real) list \<Rightarrow> real \<times> real \<Rightarrow> py_error + real \<times> real" where
  "weighted_loop f [] acc = Inr acc"
| "weighted_loop f ((factor, weight) # ws) (score, total_weight) =
     (case getattr_factor f factor of
        Field factor_value \<Rightarrow>
          weighted_loop f ws (score + factor_value * weight, total_weight + weight)
      | Method \<Rightarrow> Inl TypeError
      | Absent \<Rightarrow> weighted_loop f ws (score, total_weight))"

definition get_weighted_score ::
  "ConfidenceFactors \<Rightarrow> (string \<times> real) list option \<Rightarrow> py_error + real" where
  "get_weighted_score f weights =
     (case weighted_loop f (case weights of None \<Rightarrow> default_weights | Some w \<Rightarrow> w) (0, 0) of
        Inl e \<Rightarrow> Inl e
      | Inr (score, total_weight) \<Rightarrow>
          Inr (if total_weight > 0 then score / total_weight else 0))"

subsection \<open>The classification data the scorer reads\<close>

text \<open>
  \<open>classification_data\<close> is a dict; the scorer reads it with \<open>.get(key, default)\<close>.
  A field is \<open>None\<close> when the key is absent. The string-valued keys hold strings.
\<close>

record classification_data =
  cd_ticker :: "string option"
  cd_fund_name :: "string option"
  cd_asset_class :: "string option"
  cd_classification_method :: "string option"
  cd_reasoning :: "string option"
  cd_equity_region :: "string option"

definition get_or :: "'a option \<Rightarrow> 'a \<Rightarrow> 'a" where
  "get_or v d = (case v of None \<Rightarrow> d | Some x \<Rightarrow> x)"

text \<open>\<open>_get_method_confidence_bonus\<close>: \<open>bonuses.get(method, 0.0)\<close>.\<close>

definition get_method_confidence_bonus :: "classification_data \<Rightarrow> real" where
  "get_method_confidence_bonus cd =
     (let method = get_or (cd_classification_method cd) '''' in
      if method = ''known_fund'' then 1 / 10
      else if method = ''morningstar'' then 5 / 100
      else if method = ''rule_based'' then 0
      else if method = ''research_based'' then - (5 / 100)
      else 0)"

text \<open>\<open>_calculate_consistency_penalty\<close>.\<close>

definition calculate_consistency_penalty :: "classification_data \<Rightarrow> real" where
  "calculate_consistency_penalty cd =
     (let asset_class = get_or (cd_asset_class cd) '''';
          fund_name = lower (get_or (cd_fund_name cd) '''');
          penalty1 =
            (if asset_class = ''Fixed Income'' \<and> any_in [''equity'', ''stock'', ''shares''] fund_name
             then 2 / 10
             else if asset_class = ''Equity'' \<and> any_in [''bond'', ''treasury'', ''fixed income''] fund_name
             then 2 / 10
             else 0);
          penalty2 =
            (if asset_class = ''Equity'' then
               (let region = cd_equity_region cd in
                if region = Some ''US'' \<and> any_in [''international'', ''foreign'', ''global''] fund_name
                then 1 / 10
                else if region = Some ''International'' \<and> str_in ''us '' fund_name
                then 1 / 10
                else 0)
             else 0)
      in penalty1 + penalty2)"

text \<open>
  The tail of \<open>calculate_classification_confidence\<close> (from "Calculate final weighted
  score" on), applied to the factors the eleven assessors produced.
\<close>

definition final_confidence :: "ConfidenceFactors \<Rightarrow> classification_data \<Rightarrow> py_error + real" where
  "final_confidence factors cd =
     (case get_weighted_score factors None of
        Inl e \<Rightarrow> Inl e
      | Inr confidence_score \<Rightarrow>
          (let method_bonus = get_method_confidence_bonus cd;
               confidence_score1 = min 1 (confidence_score * (1 + method_bonus));
               consistency_penalty = calculate_consistency_penalty cd
           in Inr (max 0 (confidence_score1 - consistency_penalty))))"

text \<open>
  \<open>calculate_classification_confidence\<close> returns the score and the factors. The eleven
  \<open>_assess_*\<close> calls are the parameter \<open>assess\<close>; the theorems below hold for whatever
  they return.
\<close>

definition calculate_classification_confidence ::
  "(classification_data \<Rightarrow> 'r \<Rightarrow> ConfidenceFactors) \<Rightarrow> classification_data \<Rightarrow> 'r
     \<Rightarrow> py_error + real \<times> ConfidenceFactors" where
  "calculate_classification_confidence assess cd research_data =
     (let factors = assess cd research_data in
      case final_confidence factors cd of
        Inl e \<Rightarrow> Inl e
      | Inr confidence_score \<Rightarrow> Inr (confidence_score, factors))"

definition factors_in_unit :: "ConfidenceFactors \<Rightarrow> bool" where
  "factors_in_unit f =
     list_all (\<lambda>v. 0 \<le> v \<and> v \<le> 1)
       [source_reliability f, source_diversity f, data_freshness f, pattern_match_score f,
        pattern_specificity f, method_agreement f, historical_accuracy f, data_completeness f,
        data_consistency f, domain_specificity f, contextual_coherence f]"

definition all_zero :: ConfidenceFactors where
  "all_zero = \<lparr>source_reliability = 0, source_diversity = 0, data_freshness = 0,
     pattern_match_score = 0, pattern_specificity = 0, method_agreement = 0,
     historical_accuracy = 0, data_completeness = 0, data_consistency = 0,
     domain_specificity = 0, contextual_coherence = 0\<rparr>"

definition all_one :: ConfidenceFactors where
  "all_one = \<lparr>source_reliability = 1, source_diversity = 1, data_freshness = 1,
     pattern_match_score = 1, pattern_specificity = 1, method_agreement = 1,
     historical_accuracy = 1, data_completeness = 1, data_consistency = 1,
     domain_specificity = 1, contextual_coherence = 1\<rparr>"

subsection \<open>\_assess\_source\_diversity\<close>

text \<open>The category a source falls into: the \<open>if/elif\<close> chain of the loop body.\<close>

definition source_type :: "string \<Rightarrow> string" where
  "source_type source =
     (let source_lower = lower source in
      if any_in [''morningstar'', ''yahoo'', ''bloomberg''] source_lower then ''financial_data''
      else if any_in [''sec.gov'', ''regulatory''] source_lower then ''regulatory''
      else if any_in [''vanguard'', ''ishares'', ''fidelity''] source_lower then ''fund_company''
      else if any_in [''news'', ''reuters'', ''wsj''] source_lower then ''news''
      else ''general'')"

text \<open>
  \<open>sources\<close> is \<open>research_data.get("research_sources", [])\<close>, a list of strings.
  \<open>source_types\<close> is a set, so its size is the number of distinct categories.
\<close>

definition assess_source_diversity :: "string list \<Rightarrow> real" where
  "assess_source_diversity sources =
     (if length sources \<le> 1 then (if length sources = 0 then 0 else 3 / 10)
      else
        (let source_types = remdups (map source_type sources);
             diversity_score = real (length source_types) / 5;
             total_sources_bonus = min (2 / 10) (real (length sources - 1) * (5 / 100))
         in min 1 (diversity_score + total_sources_bonus)))"

text \<open>The value the specification gives for at least one source.\<close>

definition spec_source_diversity :: "string list \<Rightarrow> real" where
  "spec_source_diversity sources =
     min 1 (real (length (remdups (map source_type sources))) / 5
            + min (2 / 10) (5 / 100 * (real (length sources) - 1)))"

section \<open>The research cache (services/research\_cache.py)\<close>

text \<open>
  \<open>datetime\<close> values are points on an integer time line and a \<open>timedelta\<close> is an
  integer. The value type is a parameter; \<open>_calculate_size\<close> (the length of the pickled
  value) is the parameter \<open>calculate_size\<close>. The SQLite table \<open>cache_entries\<close> is a
  list of typed rows with distinct keys (\<open>key\<close> is its primary key) and every SQL
  statement takes effect as it is written; the value column holds the value itself. One call of \<open>get\<close>
  or \<open>set\<close> reads the clock once (\<open>now\<close>). The in-memory tier is a Python dict: an
  association list in insertion order with distinct keys.
\<close>

record 'v CacheEntry =
  entry_key :: string
  entry_value :: 'v
  created_at :: int
  expires_at :: int
  access_count :: int
  last_accessed :: int
  tags :: "string list"
  size_bytes :: int

text \<open>\<open>CacheEntry.is_expired\<close>: \<open>datetime.now() > self.expires_at\<close>.\<close>

definition is_expired :: "int \<Rightarrow> 'v CacheEntry \<Rightarrow> bool" where
  "is_expired now e = (now > expires_at e)"

record 'v ResearchDataCache =
  max_memory_size :: int
  default_ttl :: int
  memory_cache :: "(string \<times> 'v CacheEntry) list"
  memory_size :: int
  disk :: "(string \<times> 'v CacheEntry) list"
  stat_hits :: nat
  stat_misses :: nat
  stat_memory_hits :: nat
  stat_disk_hits :: nat
  stat_evictions :: nat
  stat_cleanups :: nat

text \<open>\<open>self.memory_cache[key] = entry\<close>: an existing key keeps its place.\<close>

fun dict_set :: "string \<Rightarrow> 'a \<Rightarrow> (string \<times> 'a) list \<Rightarrow> (string \<times> 'a) list" where
  "dict_set k v [] = [(k, v)]"
| "dict_set k v ((k', v') # kvs) =
     (if k = k' then (k, v) # kvs else (k', v') # dict_set k v kvs)"

text \<open>\<open>del self.memory_cache[key]\<close>.\<close>

definition dict_del :: "string \<Rightarrow> (string \<times> 'a) list \<Rightarrow> (string \<times> 'a) list" where
  "dict_del k kvs = filter (\<lambda>kv. fst kv \<noteq> k) kvs"

text \<open>\<open>_remove_from_memory\<close>.\<close>

definition remove_from_memory :: "string \<Rightarrow> 'v ResearchDataCache \<Rightarrow> 'v ResearchDataCache" where
  "remove_from_memory key st =
     (case map_of (memory_cache st) key of
        None \<Rightarrow> st
      | Some entry \<Rightarrow>
          st\<lparr>memory_size := memory_size st - size_bytes entry,
             memory_cache := dict_del key (memory_cache st)\<rparr>)"

text \<open>
  \<open>min(self.memory_cache.keys(), key=lambda k: self.memory_cache[k].last_accessed)\<close>:
  Python's \<open>min\<close> keeps the first of several minimal elements.
\<close>

fun min_by_last_accessed ::
  "string \<times> 'v CacheEntry \<Rightarrow> (string \<times> 'v CacheEntry) list \<Rightarrow> string \<times> 'v CacheEntry" where
  "min_by_last_accessed best [] = best"
| "min_by_last_accessed best (x # xs) =
     (if last_accessed (snd x) < last_accessed (snd best)
      then min_by_last_accessed x xs else min_by_last_accessed best xs)"

text \<open>\<open>_evict_from_memory\<close>.\<close>

definition evict_from_memory :: "'v ResearchDataCache \<Rightarrow> 'v ResearchDataCache" where
  "evict_from_memory st =
     (case memory_cache st of
        [] \<Rightarrow> st
      | x # xs \<Rightarrow>
          (let lru_key = fst (min_by_last_accessed x xs);
               st1 = remove_from_memory lru_key st
           in st1\<lparr>stat_evictions := stat_evictions st1 + 1\<rparr>))"

lemma min_by_last_accessed_mem: "min_by_last_accessed b xs \<in> set (b # xs)"
  by (induction xs arbitrary: b) (auto split: if_splits)

lemma length_dict_del_mem:
  assumes "k \<in> fst ` set kvs"
  shows "length (dict_del k kvs) < length kvs"
proof -
  from assms obtain kv where "kv \<in> set kvs" "\<not> (fst kv \<noteq> k)" by auto
  then show ?thesis
    unfolding dict_del_def by (rule length_filter_less)
qed

lemma evict_from_memory_cache:
  assumes "memory_cache st = x # xs"
  shows "memory_cache (evict_from_memory st)
           = dict_del (fst (min_by_last_accessed x xs)) (memory_cache st)"
proof -
  define k where "k = fst (min_by_last_accessed x xs)"
  have "min_by_last_accessed x xs \<in> set (memory_cache st)"
    using min_by_last_accessed_mem[of x xs] assms by simp
  then have "k \<in> fst ` set (memory_cache st)"
    unfolding k_def by (rule imageI)
  then obtain e where e: "map_of (memory_cache st) k = Some e"
    by (metis domD dom_map_of_conv_image_fst)
  have "evict_from_memory st =
          (remove_from_memory k st)\<lparr>stat_evictions := stat_evictions (remove_from_memory k st) + 1\<rparr>"
    unfolding evict_from_memory_def k_def by (simp add: assms Let_def)
  then show ?thesis
    unfolding k_def[symmetric] by (simp add: remove_from_memory_def e)
qed

lemma evict_from_memory_shrinks:
  assumes "memory_cache st \<noteq> []"
  shows "length (memory_cache (evict_from_memory st)) < length (memory_cache st)"
proof -
  obtain x xs where c: "memory_cache st = x # xs"
    using assms by (cases "memory_cache st") auto
  have "min_by_last_accessed x xs \<in> set (memory_cache st)"
    using min_by_last_accessed_mem[of x xs] c by simp
  then have "fst (min_by_last_accessed x xs) \<in> fst ` set (memory_cache st)"
    by (rule imageI)
  then show ?thesis
    using length_dict_del_mem evict_from_memory_cache[OF c] by metis
qed

text \<open>
  The loop at the head of \<open>_add_to_memory\<close>:
  \<open>while self.memory_size + size_bytes > self.max_memory_size and len(self.memory_cache) > 0\<close>.
\<close>

function evict_until_fits :: "int \<Rightarrow> 'v ResearchDataCache \<Rightarrow> 'v ResearchDataCache" where
  "evict_until_fits sz st =
     (if memory_size st + sz > max_memory_size st \<and> length (memory_cache st) > 0
      then evict_until_fits sz (evict_from_memory st) else st)"
  by pat_completeness auto
termination
  by (relation "measure (\<lambda>(sz, st). length (memory_cache st))")
     (auto intro: evict_from_memory_shrinks)

declare evict_until_fits.simps [simp del]

text \<open>
  The \<open>entry_data\<close> dict \<open>_add_to_memory\<close> reads with \<open>.get(key, default)\<close>: a field
  is \<open>None\<close> when the dict has no such key. \<open>asdict(entry)\<close> (from \<open>set\<close>) has every
  key; \<open>dict(row)\<close> (from \<open>get\<close>) has the columns the SELECT names, so no
  \<open>last_accessed\<close>, and its \<open>access_count\<close> is the one read before the UPDATE.
\<close>

record entry_data =
  ed_created_at :: "int option"
  ed_expires_at :: "int option"
  ed_access_count :: "int option"
  ed_last_accessed :: "int option"
  ed_tags :: "string list option"
  ed_size_bytes :: "int option"

definition asdict :: "'v CacheEntry \<Rightarrow> entry_data" where
  "asdict e = \<lparr>ed_created_at = Some (created_at e), ed_expires_at = Some (expires_at e),
     ed_access_count = Some (access_count e), ed_last_accessed = Some (last_accessed e),
     ed_tags = Some (tags e), ed_size_bytes = Some (size_bytes e)\<rparr>"

definition dict_of_row :: "'v CacheEntry \<Rightarrow> entry_data" where
  "dict_of_row r = \<lparr>ed_created_at = Some (created_at r), ed_expires_at = Some (expires_at r),
     ed_access_count = Some (access_count r), ed_last_accessed = None,
     ed_tags = Some (tags r), ed_size_bytes = Some (size_bytes r)\<rparr>"

text \<open>\<open>_add_to_memory\<close>.\<close>

definition add_to_memory ::
  "('v \<Rightarrow> int) \<Rightarrow> int \<Rightarrow> string \<Rightarrow> 'v \<Rightarrow> entry_data \<Rightarrow> 'v ResearchDataCache
     \<Rightarrow> 'v ResearchDataCache" where
  "add_to_memory calculate_size now key v ed st =
     (let sz = get_or (ed_size_bytes ed) (calculate_size v);
          st1 = evict_until_fits sz st;
          entry = \<lparr>entry_key = key, entry_value = v,
                   created_at = get_or (ed_created_at ed) now,
                   expires_at = get_or (ed_expires_at ed) (now + default_ttl st1),
                   access_count = get_or (ed_access_count ed) 1,
                   last_accessed = get_or (ed_last_accessed ed) now,
                   tags = get_or (ed_tags ed) [],
                   size_bytes = sz\<rparr>
      in st1\<lparr>memory_cache := dict_set key entry (memory_cache st1),
             memory_size := memory_size st1 + sz\<rparr>)"

text \<open>
  \<open>get\<close> with an explicit key. The result is the value returned (\<open>None\<close> for a miss)
  and the cache afterwards.
\<close>

definition cache_get ::
  "('v \<Rightarrow> int) \<Rightarrow> int \<Rightarrow> string \<Rightarrow> 'v ResearchDataCache \<Rightarrow> 'v option \<times> 'v ResearchDataCache" where
  "cache_get calculate_size now key st =
     (let hit = (case map_of (memory_cache st) key of
                   None \<Rightarrow> None
                 | Some entry \<Rightarrow> if \<not> is_expired now entry then Some entry else None)
      in case hit of
        Some entry \<Rightarrow>
          (Some (entry_value entry),
           st\<lparr>memory_cache :=
                dict_set key (entry\<lparr>access_count := access_count entry + 1, last_accessed := now\<rparr>)
                  (memory_cache st),
              stat_hits := stat_hits st + 1,
              stat_memory_hits := stat_memory_hits st + 1\<rparr>)
      | None \<Rightarrow>
          (let st1 = remove_from_memory key st in
           case (case map_of (disk st1) key of
                   None \<Rightarrow> None
                 | Some row \<Rightarrow> if expires_at row > now then Some row else None) of
             Some row \<Rightarrow>
               (let v = entry_value row;
                    st2 = st1\<lparr>disk := dict_set key
                            (row\<lparr>access_count := access_count row + 1, last_accessed := now\<rparr>)
                            (disk st1)\<rparr>;
                    access_count1 = access_count row + 1;
                    st3 = (if access_count1 \<ge> 3
                           then add_to_memory calculate_size now key v (dict_of_row row) st2
                           else st2)
                in (Some v, st3\<lparr>stat_hits := stat_hits st3 + 1,
                                stat_disk_hits := stat_disk_hits st3 + 1\<rparr>))
           | None \<Rightarrow> (None, st1\<lparr>stat_misses := stat_misses st1 + 1\<rparr>)))"

text \<open>\<open>_cleanup_expired\<close>.\<close>

definition cleanup_expired :: "int \<Rightarrow> 'v ResearchDataCache \<Rightarrow> 'v ResearchDataCache" where
  "cleanup_expired now st =
     (let expired_keys = map fst (filter (\<lambda>kv. is_expired now (snd kv)) (memory_cache st));
          st1 = fold remove_from_memory expired_keys st;
          deleted_count = length (filter (\<lambda>kr. expires_at (snd kr) \<le> now) (disk st1));
          st2 = st1\<lparr>disk := filter (\<lambda>kr. \<not> expires_at (snd kr) \<le> now) (disk st1)\<rparr>
      in if deleted_count > 0 \<or> expired_keys \<noteq> []
         then st2\<lparr>stat_cleanups := stat_cleanups st2 + 1\<rparr> else st2)"

text \<open>
  \<open>set\<close> with an explicit key; \<open>ttl\<close> and \<open>tags\<close> are \<open>None\<close> when the caller
  leaves them out.
\<close>

definition cache_set ::
  "('v \<Rightarrow> int) \<Rightarrow> int \<Rightarrow> 'v \<Rightarrow> string \<Rightarrow> int option \<Rightarrow> string list option
     \<Rightarrow> 'v ResearchDataCache \<Rightarrow> 'v ResearchDataCache" where
  "cache_set calculate_size now v key ttl_opt tags_opt st =
     (let ttl = get_or ttl_opt (default_ttl st);
          tgs = get_or tags_opt [];
          expires = now + ttl;
          sz = calculate_size v;
          entry = \<lparr>entry_key = key, entry_value = v, created_at = now, expires_at = expires,
                   access_count = 1, last_accessed = now, tags = tgs, size_bytes = sz\<rparr>;
          st1 = st\<lparr>disk := dict_set key entry (disk st)\<rparr>;
          st2 = (if sz \<le> max_memory_size st1 div 10
                 then add_to_memory calculate_size now key v (asdict entry) st1
                 else st1)
      in if length (memory_cache st2) mod 100 = 0 then cleanup_expired now st2 else st2)"


text \<open>With the default table every key is a field, so the loop adds all eleven terms.\<close>

definition weighted_sum :: "ConfidenceFactors \<Rightarrow> real" where
  "weighted_sum f =
     source_reliability f * (20 / 100) + source_diversity f * (10 / 100)
     + data_freshness f * (5 / 100) + pattern_match_score f * (15 / 100)
     + pattern_specificity f * (10 / 100) + method_agreement f * (15 / 100)
     + historical_accuracy f * (10 / 100) + data_completeness f * (10 / 100)
     + data_consistency f * (10 / 100) + domain_specificity f * (15 / 100)
     + contextual_coherence f * (10 / 100)"

definition sample_cd :: classification_data where
  "sample_cd = \<lparr>cd_ticker = Some ''VTI'', cd_fund_name = Some ''Vanguard Total Bond Fund'',
     cd_asset_class = Some ''Equity'', cd_classification_method = Some ''known_fund'',
     cd_reasoning = Some ''known fund'', cd_equity_region = Some ''US''\<rparr>"

text \<open>The key \<open>_evict_from_memory\<close> picks (the empty string stands for "no entry").\<close>

definition lru_key :: "'v ResearchDataCache \<Rightarrow> string" where
  "lru_key st =
     (case memory_cache st of [] \<Rightarrow> [] | x # xs \<Rightarrow> fst (min_by_last_accessed x xs))"



subsection \<open>Sample caches\<close>

definition ent :: "string \<Rightarrow> int \<Rightarrow> int \<Rightarrow> int \<Rightarrow> int \<Rightarrow> nat CacheEntry" where
  "ent k ex ac la sz = \<lparr>entry_key = k, entry_value = 0, created_at = 0, expires_at = ex,
     access_count = ac, last_accessed = la, tags = [], size_bytes = sz\<rparr>"




text \<open>A cache whose only row expired at time 5.\<close>

definition stale_disk :: "nat ResearchDataCache" where
  "stale_disk = \<lparr>max_memory_size = 1000, default_ttl = 1000, memory_cache = [],
     memory_size = 0, disk = [(''old'', ent ''old'' 5 1 0 10)], stat_hits = 0, stat_misses = 0,
     stat_memory_hits = 0, stat_disk_hits = 0, stat_evictions = 0, stat_cleanups = 0\<rparr>"

text \<open>\<open>n\<close> successive \<open>set\<close> calls of a 5-byte value under the key \<open>a\<close>, from time 10 on.\<close>

primrec rewrite_same_key :: "nat \<Rightarrow> nat ResearchDataCache \<Rightarrow> nat ResearchDataCache" where
  "rewrite_same_key 0 st = st"
| "rewrite_same_key (Suc n) st =
     cache_set (\<lambda>v. 5) (10 + int n) 0 ''a'' None None (rewrite_same_key n st)"

definition never_swept :: "nat ResearchDataCache \<Rightarrow> bool" where
  "never_swept st =
     (max_memory_size st = 1000 \<and> stat_cleanups st = 0
      \<and> map_of (disk st) ''old'' = Some (ent ''old'' 5 1 0 10)
      \<and> (memory_cache st = [] \<or> map fst (memory_cache st) = [''a'']))"



section \<open>Dynamically typed values\<close>

text \<open>
  Message payloads (\<open>Dict[str, Any]\<close>), keyword arguments and the fields of the pydantic
  models (which are not validated on assignment) hold arbitrary Python values.
\<close>

datatype pyval =
    PNone
  | PBool bool
  | PInt int
  | PFloat real
  | PStr string
  | PDatetime int
  | PList "pyval list"
  | PDict "(string \<times> pyval) list"

type_synonym pydict = "(string \<times> pyval) list"

text \<open>Truth value testing (\<open>if x\<close>, \<open>not x\<close>, \<open>all([...])\<close>).\<close>

fun truthy :: "pyval \<Rightarrow> bool" where
  "truthy PNone = False"
| "truthy (PBool b) = b"
| "truthy (PInt i) = (i \<noteq> 0)"
| "truthy (PFloat r) = (r \<noteq> 0)"
| "truthy (PStr s) = (s \<noteq> [])"
| "truthy (PDatetime t) = True"
| "truthy (PList xs) = (xs \<noteq> [])"
| "truthy (PDict kvs) = (kvs \<noteq> [])"

text \<open>The number a value stands for in a comparison with a float, if it is one.\<close>

fun py_num :: "pyval \<Rightarrow> real option" where
  "py_num (PBool b) = Some (if b then 1 else 0)"
| "py_num (PInt i) = Some (real_of_int i)"
| "py_num (PFloat r) = Some r"
| "py_num v = None"

text \<open>\<open>v > r\<close>, \<open>v < r\<close> and \<open>v >= r\<close> against a number; TypeError for a value that is none.\<close>

definition py_gt :: "pyval \<Rightarrow> real \<Rightarrow> py_error + bool" where
  "py_gt v r = (case py_num v of None \<Rightarrow> Inl TypeError | Some x \<Rightarrow> Inr (x > r))"

definition py_lt :: "pyval \<Rightarrow> real \<Rightarrow> py_error + bool" where
  "py_lt v r = (case py_num v of None \<Rightarrow> Inl TypeError | Some x \<Rightarrow> Inr (x < r))"

definition py_ge :: "pyval \<Rightarrow> real \<Rightarrow> py_error + bool" where
  "py_ge v r = (case py_num v of None \<Rightarrow> Inl TypeError | Some x \<Rightarrow> Inr (x \<ge> r))"


section \<open>FundCategorization (models/unified\_models.py)\<close>

record FundCategorization =
  ticker :: pyval
  fund_name :: pyval
  asset_class :: pyval
  asset_class_confidence :: pyval
  equity_region :: pyval
  equity_style :: pyval
  equity_size :: pyval
  fixed_income_type :: pyval
  fixed_income_duration :: pyval
  research_sources :: pyval
  key_holdings :: pyval
  expense_ratio :: pyval
  morningstar_category :: pyval
  classification_method :: pyval
  reasoning :: pyval
  alternative_classifications :: pyval
  manual_override :: pyval
  override_reason :: pyval
  override_by :: pyval
  override_timestamp :: pyval
  data_completeness_fc :: pyval
  classification_timestamp :: pyval





definition sample_fund :: FundCategorization where
  "sample_fund = \<lparr>ticker = PStr ''XYZQ'', fund_name = PStr ''XYZQ Fund'',
     asset_class = PStr ''Equity'', asset_class_confidence = PFloat (5 / 10),
     equity_region = PNone, equity_style = PNone, equity_size = PNone,
     fixed_income_type = PNone, fixed_income_duration = PNone,
     research_sources = PList [], key_holdings = PList [], expense_ratio = PNone,
     morningstar_category = PNone, classification_method = PStr ''rule_based'',
     reasoning = PStr ''pattern'', alternative_classifications = PList [],
     manual_override = PBool False, override_reason = PNone, override_by = PNone,
     override_timestamp = PNone, data_completeness_fc = PFloat 0,
     classification_timestamp = PDatetime 0\<rparr>"



section \<open>Messages and agents (agents/base\_agent.py)\<close>

datatype AgentType =
  INTAKE | RESEARCH | EXTRACTION | CATEGORIZATION | VALIDATION | CHAT_ORCHESTRATOR

datatype MessageType =
  STATUS_UPDATE | DATA_PROCESSED | REQUEST_ACTION | VALIDATION_RESULT | CHAT_RESPONSE | ERROR

text \<open>The \<open>.value\<close> of an agent type.\<close>

fun agent_type_value :: "AgentType \<Rightarrow> string" where
  "agent_type_value INTAKE = ''intake''"
| "agent_type_value RESEARCH = ''research''"
| "agent_type_value EXTRACTION = ''extraction''"
| "agent_type_value CATEGORIZATION = ''categorization''"
| "agent_type_value VALIDATION = ''validation''"
| "agent_type_value CHAT_ORCHESTRATOR = ''chat_orchestrator''"

text \<open>
  A recipient is annotated \<open>Optional[AgentType]\<close>; the orchestrator also passes the
  plain strings under which it keeps its categorization agents.
\<close>

datatype recipient = Agent AgentType | Named string

record AgentMessage =
  mtype :: MessageType
  sender :: "AgentType option"
  recipient :: "recipient option"
  payload :: pydict
  session_id :: string
  timestamp :: int
  message_id :: string

text \<open>
  The dataclass constructor followed by \<open>__post_init__\<close>. \<open>stamp\<close> is the reading of
  \<open>datetime.utcnow()\<close> and the fresh \<open>uuid.uuid4()\<close> string at that moment; they are
  used when \<open>timestamp\<close> or \<open>message_id\<close> is \<open>None\<close>. No argument is validated.
\<close>

definition AgentMessage_init ::
  "MessageType \<Rightarrow> AgentType option \<Rightarrow> recipient option \<Rightarrow> pydict \<Rightarrow> string
     \<Rightarrow> int option \<Rightarrow> string option \<Rightarrow> int \<times> string \<Rightarrow> AgentMessage" where
  "AgentMessage_init ty snd_by rcp d sid ts mid stamp =
     \<lparr>mtype = ty, sender = snd_by, recipient = rcp, payload = d, session_id = sid,
      timestamp = (case ts of None \<Rightarrow> fst stamp | Some t \<Rightarrow> t),
      message_id = (case mid of None \<Rightarrow> snd stamp | Some i \<Rightarrow> i)\<rparr>"

record BaseAgent =
  agent_type :: AgentType
  agent_session_id :: string
  is_active :: bool

text \<open>\<open>BaseAgent.create_message\<close>.\<close>

definition create_message ::
  "int \<times> string \<Rightarrow> 'a BaseAgent_scheme \<Rightarrow> MessageType \<Rightarrow> recipient option \<Rightarrow> pydict
     \<Rightarrow> AgentMessage" where
  "create_message stamp self message_type rcp d =
     AgentMessage_init message_type (Some (agent_type self)) rcp d (agent_session_id self)
       None None stamp"

text \<open>\<open>BaseAgent.emit_error\<close> (tracing is switched off).\<close>

definition emit_error ::
  "int \<times> string \<Rightarrow> 'a BaseAgent_scheme \<Rightarrow> string \<Rightarrow> pydict option \<Rightarrow> AgentMessage" where
  "emit_error stamp self err details =
     (let d0 = [(''error'', PStr err), (''agent'', PStr (agent_type_value (agent_type self)))];
          d = (case details of
                 None \<Rightarrow> d0
               | Some ds \<Rightarrow> if ds = [] then d0 else fold (\<lambda>kv acc. dict_set (fst kv) (snd kv) acc) ds d0)
      in create_message stamp self ERROR None d)"

section \<open>Sessions (models/unified\_models.py)\<close>

record ProcessingSession =
  ps_session_id :: string
  ps_input_file_path :: "string option"
  ps_file_type :: string
  ps_portfolio_items :: "pyval list"
  ps_stage :: string
  ps_progress :: real
  ps_status :: string
  ps_chat_history :: "pydict list"
  ps_updated_at :: int

record CategorizationSession =
  cs_session_id :: string
  cs_portfolio_items :: "pyval list"
  fund_categorizations :: "(string \<times> FundCategorization) list"
  current_stage :: string
  funds_needing_input :: "pyval list"
  current_fund_index :: nat
  total_funds :: int
  categorized_funds :: int
  high_confidence_funds :: int
  cs_updated_at :: int

text \<open>\<open>str.upper()\<close>, letter by letter on the ASCII letters.\<close>

definition upper_char :: "char \<Rightarrow> char" where
  "upper_char c =
     (case map_of (zip ''abcdefghijklmnopqrstuvwxyz'' ''ABCDEFGHIJKLMNOPQRSTUVWXYZ'') c of
        Some d \<Rightarrow> d
      | None \<Rightarrow> c)"

definition upper :: "string \<Rightarrow> string" where
  "upper s = map upper_char s"

text \<open>\<open>len([c for c in ... if c.asset_class_confidence >= 0.8])\<close>.\<close>

fun count_high_confidence :: "FundCategorization list \<Rightarrow> py_error + int" where
  "count_high_confidence [] = Inr 0"
| "count_high_confidence (c # cs) =
     (case py_ge (asset_class_confidence c) (8 / 10) of
        Inl e \<Rightarrow> Inl e
      | Inr b \<Rightarrow>
          (case count_high_confidence cs of
             Inl e \<Rightarrow> Inl e
           | Inr n \<Rightarrow> Inr (if b then n + 1 else n)))"

text \<open>
  \<open>CategorizationSession.add_fund_categorization\<close>. An exception leaves the
  assignments made before it in place.
\<close>

definition add_fund_categorization ::
  "int \<Rightarrow> FundCategorization \<Rightarrow> CategorizationSession \<Rightarrow> CategorizationSession \<times> py_error option" where
  "add_fund_categorization now categorization s =
     (case ticker categorization of
        PStr t \<Rightarrow>
          (let s1 = s\<lparr>fund_categorizations := dict_set (upper t) categorization (fund_categorizations s)\<rparr>;
               s2 = s1\<lparr>categorized_funds := int (length (fund_categorizations s1))\<rparr>
           in case count_high_confidence (map snd (fund_categorizations s2)) of
                Inl e \<Rightarrow> (s2, Some e)
              | Inr n \<Rightarrow> (s2\<lparr>high_confidence_funds := n, cs_updated_at := now\<rparr>, None))
      | _ \<Rightarrow> (s, Some AttributeError))"

text \<open>\<open>get_next_fund_needing_input\<close>; \<open>None\<close> is Python's \<open>None\<close>.\<close>

definition get_next_fund_needing_input :: "CategorizationSession \<Rightarrow> pyval" where
  "get_next_fund_needing_input s =
     (if current_fund_index s < length (funds_needing_input s)
      then funds_needing_input s ! current_fund_index s
      else PNone)"

text \<open>\<open>get_fund_categorization(ticker)\<close>: \<open>ticker.upper()\<close> needs a string.\<close>

definition get_fund_categorization ::
  "CategorizationSession \<Rightarrow> pyval \<Rightarrow> py_error + FundCategorization option" where
  "get_fund_categorization s t =
     (case t of
        PStr name \<Rightarrow> Inr (map_of (fund_categorizations s) (upper name))
      | _ \<Rightarrow> Inl AttributeError)"

definition mark_current_fund_complete :: "int \<Rightarrow> CategorizationSession \<Rightarrow> CategorizationSession" where
  "mark_current_fund_complete now s =
     s\<lparr>current_fund_index := current_fund_index s + 1, cs_updated_at := now\<rparr>"

text \<open>\<open>get_progress_percentage\<close> and \<open>get_summary\<close> for a session without categorizations
  (the only case in which the orchestrator gets as far as calling \<open>get_summary\<close>).\<close>

definition get_progress_percentage :: "CategorizationSession \<Rightarrow> real" where
  "get_progress_percentage s =
     (if total_funds s = 0 then 0
      else real_of_int (categorized_funds s) / real_of_int (total_funds s) * 100)"

definition get_summary_empty :: "CategorizationSession \<Rightarrow> pydict" where
  "get_summary_empty s =
     [(''total_funds'', PInt (total_funds s)),
      (''categorized_funds'', PInt (categorized_funds s)),
      (''progress_percentage'', PFloat (get_progress_percentage s)),
      (''average_confidence'', PFloat 0),
      (''high_confidence_funds'', PInt (high_confidence_funds s)),
      (''asset_class_breakdown'', PDict []),
      (''current_stage'', PStr (current_stage s)),
      (''needs_user_input'', PInt (int (length (funds_needing_input s)))),
      (''is_complete'', PBool (current_stage s = ''complete''))]"

section \<open>Constructing a FundCategorization\<close>

text \<open>
  \<open>FundCategorization(**d)\<close> is pydantic's validation of the keyword arguments. Its
  per-field type check and coercion is the parameter \<open>coerce\<close> (\<open>None\<close>: the value
  is rejected). What is modelled here is the part the class declares: a field declared
  with \<open>Field(...)\<close> is required, every other field has the default given; keys that
  name no field are ignored; any failure raises one ValidationError.
\<close>

definition field_value ::
  "(string \<Rightarrow> pyval \<Rightarrow> pyval option) \<Rightarrow> pydict \<Rightarrow> string \<Rightarrow> pyval option \<Rightarrow> pyval option" where
  "field_value coerce d k dflt = (case map_of d k of None \<Rightarrow> dflt | Some v \<Rightarrow> coerce k v)"

definition validate_fields ::
  "(string \<Rightarrow> pyval \<Rightarrow> pyval option) \<Rightarrow> int \<Rightarrow> pydict \<Rightarrow> FundCategorization option" where
  "validate_fields coerce now d =
     do {
       v_ticker \<leftarrow> field_value coerce d ''ticker'' None;
       v_fund_name \<leftarrow> field_value coerce d ''fund_name'' None;
       v_asset_class \<leftarrow> field_value coerce d ''asset_class'' None;
       v_asset_class_confidence \<leftarrow> field_value coerce d ''asset_class_confidence'' None;
       v_equity_region \<leftarrow> field_value coerce d ''equity_region'' (Some PNone);
       v_equity_style \<leftarrow> field_value coerce d ''equity_style'' (Some PNone);
       v_equity_size \<leftarrow> field_value coerce d ''equity_size'' (Some PNone);
       v_fixed_income_type \<leftarrow> field_value coerce d ''fixed_income_type'' (Some PNone);
       v_fixed_income_duration \<leftarrow> field_value coerce d ''fixed_income_duration'' (Some PNone);
       v_research_sources \<leftarrow> field_value coerce d ''research_sources'' (Some (PList []));
       v_key_holdings \<leftarrow> field_value coerce d ''key_holdings'' (Some (PList []));
       v_expense_ratio \<leftarrow> field_value coerce d ''expense_ratio'' (Some PNone);
       v_morningstar_category \<leftarrow> field_value coerce d ''morningstar_category'' (Some PNone);
       v_classification_method \<leftarrow> field_value coerce d ''classification_method'' None;
       v_reasoning \<leftarrow> field_value coerce d ''reasoning'' None;
       v_alternative_classifications \<leftarrow>
         field_value coerce d ''alternative_classifications'' (Some (PList []));
       v_manual_override \<leftarrow> field_value coerce d ''manual_override'' (Some (PBool False));
       v_override_reason \<leftarrow> field_value coerce d ''override_reason'' (Some PNone);
       v_override_by \<leftarrow> field_value coerce d ''override_by'' (Some PNone);
       v_override_timestamp \<leftarrow> field_value coerce d ''override_timestamp'' (Some PNone);
       v_data_completeness \<leftarrow> field_value coerce d ''data_completeness'' (Some (PFloat 0));
       v_classification_timestamp \<leftarrow>
         field_value coerce d ''classification_timestamp'' (Some (PDatetime now));
       Some \<lparr>ticker = v_ticker, fund_name = v_fund_name, asset_class = v_asset_class,
         asset_class_confidence = v_asset_class_confidence, equity_region = v_equity_region,
         equity_style = v_equity_style, equity_size = v_equity_size,
         fixed_income_type = v_fixed_income_type,
         fixed_income_duration = v_fixed_income_duration,
         research_sources = v_research_sources, key_holdings = v_key_holdings,
         expense_ratio = v_expense_ratio, morningstar_category = v_morningstar_category,
         classification_method = v_classification_method, reasoning = v_reasoning,
         alternative_classifications = v_alternative_classifications,
         manual_override = v_manual_override, override_reason = v_override_reason,
         override_by = v_override_by, override_timestamp = v_override_timestamp,
         data_completeness_fc = v_data_completeness,
         classification_timestamp = v_classification_timestamp\<rparr>
     }"

definition FundCategorization_init ::
  "(string \<Rightarrow> pyval \<Rightarrow> pyval option) \<Rightarrow> int \<Rightarrow> pydict \<Rightarrow> py_error + FundCategorization" where
  "FundCategorization_init coerce now d =
     (case validate_fields coerce now d of None \<Rightarrow> Inl ValidationError | Some f \<Rightarrow> Inr f)"

section \<open>ClassificationResult.to\_dict (agents/classification\_agent.py)\<close>

record ClassificationResult =
  cr_ticker :: pyval
  cr_fund_name :: pyval
  cr_asset_class :: pyval
  cr_asset_class_confidence :: pyval
  cr_equity_region :: pyval
  cr_equity_style :: pyval
  cr_equity_size :: pyval
  cr_fixed_income_type :: pyval
  cr_fixed_income_duration :: pyval
  cr_research_sources :: pyval
  cr_key_data_points :: pyval
  cr_morningstar_category :: pyval
  cr_classification_method :: pyval
  cr_reasoning :: pyval
  cr_alternative_classifications :: pyval
  cr_manual_override :: pyval
  cr_override_reason :: pyval

definition sub_category_entry :: "string \<Rightarrow> pyval \<Rightarrow> pydict" where
  "sub_category_entry k v = (if truthy v then [(k, v)] else [])"

definition to_dict :: "ClassificationResult \<Rightarrow> pydict" where
  "to_dict c =
     [(''ticker'', cr_ticker c),
      (''fund_name'', cr_fund_name c),
      (''asset_class'', cr_asset_class c),
      (''confidence'', cr_asset_class_confidence c),
      (''sub_categories'', PDict
         (sub_category_entry ''equity_region'' (cr_equity_region c)
          @ sub_category_entry ''equity_style'' (cr_equity_style c)
          @ sub_category_entry ''equity_size'' (cr_equity_size c)
          @ sub_category_entry ''fixed_income_type'' (cr_fixed_income_type c)
          @ sub_category_entry ''fixed_income_duration'' (cr_fixed_income_duration c))),
      (''research_sources'', cr_research_sources c),
      (''key_data_points'', cr_key_data_points c),
      (''morningstar_category'', cr_morningstar_category c),
      (''classification_method'', cr_classification_method c),
      (''reasoning'', cr_reasoning c),
      (''alternatives'', cr_alternative_classifications c),
      (''manual_override'', cr_manual_override c),
      (''override_reason'', cr_override_reason c)]"

section \<open>The chat orchestrator (agents/chat\_orchestrator.py)\<close>

datatype ConversationStage =
    GREETING | FILE_UPLOADED | PORTFOLIO_PROCESSED
  | CATEGORIZATION_STARTED | DEEP_RESEARCH_STARTED | DEEP_RESEARCH_COMPLETED
  | CLASSIFICATION_STARTED | CLASSIFICATION_COMPLETED | USER_REVIEW_NEEDED
  | CATEGORIZATION_REVIEW | CATEGORIZATION_COMPLETE
  | RESEARCH_STARTED | RESEARCH_COMPLETED | EXTRACTION_STARTED | EXTRACTION_COMPLETED
  | ANALYSIS_READY | RECOMMENDATIONS | COMPLETE

text \<open>
  \<open>agent_instances\<close> lists the keys of the dict of sub-agents (the agents themselves
  are objects of their own): \<open>_setup\<close> fills it according to \<open>workflow_mode\<close>.
\<close>

record ChatOrchestrator = BaseAgent +
  conversation_stage :: ConversationStage
  processing_session :: "ProcessingSession option"
  categorization_session :: "CategorizationSession option"
  agent_instances :: "recipient list"
  workflow_mode :: string

text \<open>
  What a handler takes from outside the program: \<open>stamp k\<close> is the clock reading and the
  uuid for the \<open>k\<close>-th message constructed, \<open>utcnow\<close> the clock reading for session
  updates, \<open>fmt\<close> the text an f-string puts in for a value, \<open>fmt_sender\<close> the same for
  a sender, and \<open>coerce\<close> pydantic's per-field validation.
\<close>

record env =
  stamp :: "nat \<Rightarrow> int \<times> string"
  utcnow :: int
  fmt :: "pyval \<Rightarrow> string"
  fmt_sender :: "AgentType option \<Rightarrow> string"
  coerce :: "string \<Rightarrow> pyval \<Rightarrow> pyval option"

text \<open>
  A handler is an async generator: it changes the orchestrator, yields messages in
  order and may end in an exception. Its outcome is the orchestrator afterwards, the
  messages yielded and the exception, if any.
\<close>

type_synonym outcome = "ChatOrchestrator \<times> AgentMessage list \<times> py_error option"

definition then_yield :: "AgentMessage list \<Rightarrow> outcome \<Rightarrow> outcome" where
  "then_yield ms r = (case r of (st, ms', e) \<Rightarrow> (st, ms @ ms', e))"


definition bar_chart :: string where
  "bar_chart = [CHR 0xF0, CHR 0x9F, CHR 0x93, CHR 0x8A]"

definition party_popper :: string where
  "party_popper = [CHR 0xF0, CHR 0x9F, CHR 0x8E, CHR 0x89]"

definition apostrophe :: string where
  "apostrophe = [CHR 0x27]"

subsection \<open>process and its simple handlers\<close>




subsection \<open>The categorization workflow\<close>

text \<open>\<open>_create_categorization_results_message\<close>.\<close>

definition create_categorization_results_message ::
  "int \<times> string \<Rightarrow> ChatOrchestrator \<Rightarrow> pyval \<Rightarrow> AgentMessage" where
  "create_categorization_results_message stmp st categorization_data =
     create_message stmp st CHAT_RESPONSE None
       [(''type'', PStr ''categorization_complete''),
        (''message'', PStr (bar_chart @ '' Categorization Results'')),
        (''message_type'', PStr ''success''),
        (''categorization_data'', categorization_data),
        (''suggested_actions'', PList
           [PDict [(''action'', PStr ''export_results''), (''label'', PStr ''Export to CSV'')],
            PDict [(''action'', PStr ''view_analysis''), (''label'', PStr ''View Portfolio Analysis'')],
            PDict [(''action'', PStr ''start_new''), (''label'', PStr ''Process Another Portfolio'')]])]"

text \<open>
  \<open>ClassificationAgent._generate_questions\<close>, on the temporary ClassificationResult
  that copies the fields of the fund's categorization.
\<close>

definition option_of :: "string \<Rightarrow> string \<Rightarrow> pyval" where
  "option_of v label = PDict [(''value'', PStr v), (''label'', PStr label)]"

definition recommended_option :: "string \<Rightarrow> string \<Rightarrow> pyval \<Rightarrow> pyval" where
  "recommended_option v label asset =
     PDict [(''value'', PStr v), (''label'', PStr label), (''recommended'', PBool (asset = PStr v))]"

definition generate_questions :: "(pyval \<Rightarrow> string) \<Rightarrow> FundCategorization \<Rightarrow> py_error + pydict list" where
  "generate_questions fm c =
     (case py_lt (asset_class_confidence c) (7 / 10) of
        Inl e \<Rightarrow> Inl e
      | Inr low \<Rightarrow>
          Inr ((if low then
                  [[(''type'', PStr ''asset_class''),
                    (''question'', PStr (''How should '' @ fm (ticker c) @ '' ('' @ fm (fund_name c)
                                          @ '') be classified?'')),
                    (''options'', PList
                       [recommended_option ''Equity'' ''Equity'' (asset_class c),
                        recommended_option ''Fixed Income'' ''Fixed Income'' (asset_class c),
                        recommended_option ''Cash'' ''Cash & Cash Equivalents'' (asset_class c),
                        recommended_option ''Alternatives'' ''Alternative Investments'' (asset_class c)]),
                    (''confidence'', asset_class_confidence c),
                    (''reasoning'', reasoning c)]]
                else [])
               @ (if asset_class c = PStr ''Equity'' then
                    (if \<not> truthy (equity_region c) then
                       [[(''type'', PStr ''equity_region''),
                         (''question'', PStr (''What geographic region does '' @ fm (ticker c)
                                               @ '' focus on?'')),
                         (''options'', PList
                            [option_of ''US'' ''United States'',
                             option_of ''International'' ''International Developed'',
                             option_of ''Emerging'' ''Emerging Markets'',
                             option_of ''Global'' ''Global/World''])]]
                     else [])
                    @ (if \<not> truthy (equity_style c) then
                         [[(''type'', PStr ''equity_style''),
                           (''question'', PStr (''What investment style does '' @ fm (ticker c)
                                                 @ '' follow?'')),
                           (''options'', PList
                              [option_of ''Value'' ''Value'',
                               option_of ''Growth'' ''Growth'',
                               option_of ''Blend'' ''Blend/Core''])]]
                       else [])
                    @ (if \<not> truthy (equity_size c) then
                         [[(''type'', PStr ''equity_size''),
                           (''question'', PStr (''What market cap focus does '' @ fm (ticker c)
                                                 @ '' have?'')),
                           (''options'', PList
                              [option_of ''Large'' ''Large Cap'',
                               option_of ''Mid'' ''Mid Cap'',
                               option_of ''Small'' ''Small Cap'',
                               option_of ''Micro'' ''Micro Cap''])]]
                       else [])
                  else if asset_class c = PStr ''Fixed Income'' then
                    (if \<not> truthy (fixed_income_type c) then
                       [[(''type'', PStr ''fixed_income_type''),
                         (''question'', PStr (''What type of bonds does '' @ fm (ticker c)
                                               @ '' hold?'')),
                         (''options'', PList
                            [option_of ''Government'' ''Government/Treasury'',
                             option_of ''Corporate'' ''Corporate'',
                             option_of ''Municipal'' ''Municipal'',
                             option_of ''High Yield'' ''High Yield/Junk''])]]
                     else [])
                    @ (if \<not> truthy (fixed_income_duration c) then
                         [[(''type'', PStr ''fixed_income_duration''),
                           (''question'', PStr (''What duration focus does '' @ fm (ticker c)
                                                 @ '' have?'')),
                           (''options'', PList
                              [option_of ''Short'' ''Short Duration (< 3 years)'',
                               option_of ''Intermediate'' ''Intermediate Duration (3-10 years)'',
                               option_of ''Long'' ''Long Duration (> 10 years)''])]]
                       else [])
                  else [])))"

text \<open>
  \<open>_send_next_categorization_question\<close>. The classification agent is looked up in
  \<open>agent_instances\<close> (KeyError when it is not there). \<open>FundCategorization\<close> defines no
  \<open>to_dict\<close>, so \<open>c.to_dict()\<close> raises AttributeError: in the final branch as soon as
  the session holds a categorization, and in the construction of the question as soon as
  there is a question to ask (the generated questions all have the keys read before).
\<close>

function send_next_categorization_question :: "env \<Rightarrow> nat \<Rightarrow> ChatOrchestrator \<Rightarrow> outcome" where
  "send_next_categorization_question ev k st =
     (case categorization_session st of
        None \<Rightarrow>
          (st, [emit_error (stamp ev k) st ''No categorization session available'' None], None)
      | Some sess \<Rightarrow>
          (let current_ticker = get_next_fund_needing_input sess in
           if \<not> truthy current_ticker then
             then_yield
               [create_message (stamp ev k) st CHAT_RESPONSE None
                  [(''message'', PStr (party_popper @ '' That'' @ apostrophe
                       @ ''s all the input I needed! Your portfolio categorization is now complete.'')),
                   (''message_type'', PStr ''success'')]]
               (if fund_categorizations sess \<noteq> [] then (st, [], Some AttributeError)
                else
                  (st,
                   [create_categorization_results_message (stamp ev (k + 1)) st
                      (PDict [(''classifications'', PList []),
                              (''summary'', PDict (get_summary_empty sess))])],
                   None))
           else
             (case get_fund_categorization sess current_ticker of
                Inl e \<Rightarrow> (st, [], Some e)
              | Inr None \<Rightarrow>
                  (st,
                   [emit_error (stamp ev k) st
                      (''No categorization found for '' @ fmt ev current_ticker) None],
                   None)
              | Inr (Some fund_categorization) \<Rightarrow>
                  if Named ''CLASSIFICATION'' \<notin> set (agent_instances st)
                  then (st, [], Some KeyError)
                  else
                    (case generate_questions (fmt ev) fund_categorization of
                       Inl e \<Rightarrow> (st, [], Some e)
                     | Inr questions \<Rightarrow>
                         if questions = [] then
                           send_next_categorization_question ev k
                             (st\<lparr>categorization_session :=
                                   Some (mark_current_fund_complete (utcnow ev) sess)\<rparr>)
                         else (st, [], Some AttributeError)))))"
  by pat_completeness auto

lemma truthy_next_fund_in_range:
  "truthy (get_next_fund_needing_input s) \<Longrightarrow> current_fund_index s < length (funds_needing_input s)"
  by (auto simp add: get_next_fund_needing_input_def split: if_splits)

termination send_next_categorization_question
proof (relation "measure (\<lambda>(ev, k, st). case categorization_session st of
                            None \<Rightarrow> 0
                          | Some s \<Rightarrow> length (funds_needing_input s) - current_fund_index s)")
  show "wf (measure (\<lambda>(ev, k, st). case categorization_session st of
                            None \<Rightarrow> 0
                          | Some s \<Rightarrow> length (funds_needing_input s) - current_fund_index s))"
    by simp
next
  fix ev :: env and k :: nat and st :: ChatOrchestrator and sess current_ticker
  assume s: "categorization_session st = Some sess"
    and c: "current_ticker = get_next_fund_needing_input sess"
    and t: "\<not> \<not> truthy current_ticker"
  have "current_fund_index sess < length (funds_needing_input sess)"
    using truthy_next_fund_in_range c t by simp
  then show "((ev, k, st\<lparr>categorization_session := Some (mark_current_fund_complete (utcnow ev) sess)\<rparr>),
              (ev, k, st))
             \<in> measure (\<lambda>(ev, k, st). case categorization_session st of
                            None \<Rightarrow> 0
                          | Some s \<Rightarrow> length (funds_needing_input s) - current_fund_index s)"
    using s by (simp add: mark_current_fund_complete_def)
qed

declare send_next_categorization_question.simps [simp del]

text \<open>\<open>value[key]\<close> for a string key.\<close>

definition py_getitem :: "pyval \<Rightarrow> string \<Rightarrow> py_error + pyval" where
  "py_getitem v key =
     (case v of
        PDict kvs \<Rightarrow> (case map_of kvs key of None \<Rightarrow> Inl KeyError | Some x \<Rightarrow> Inr x)
      | _ \<Rightarrow> Inl TypeError)"

text \<open>\<open>[item["ticker"] for item in interaction_needed]\<close>.\<close>

fun tickers_of :: "pyval list \<Rightarrow> py_error + pyval list" where
  "tickers_of [] = Inr []"
| "tickers_of (item # items) =
     (case py_getitem item ''ticker'' of
        Inl e \<Rightarrow> Inl e
      | Inr t \<Rightarrow> (case tickers_of items of Inl e \<Rightarrow> Inl e | Inr ts \<Rightarrow> Inr (t # ts)))"

text \<open>
  \<open>_start_user_review_process\<close>. \<open>interaction_needed\<close> is a list of dicts when the
  classification agent built it; a non-empty value of another type fails in the
  comprehension or in the subscript.
\<close>

definition start_user_review_process :: "env \<Rightarrow> nat \<Rightarrow> ChatOrchestrator \<Rightarrow> pydict \<Rightarrow> outcome" where
  "start_user_review_process ev k st categorization_data =
     (let st1 = st\<lparr>conversation_stage := CATEGORIZATION_REVIEW\<rparr>;
          interaction_needed = get_or (map_of categorization_data ''interaction_needed'') (PList [])
      in if \<not> truthy interaction_needed then
           (st1, [create_categorization_results_message (stamp ev k) st1 (PDict categorization_data)],
            None)
         else
           (case interaction_needed of
              PList items \<Rightarrow>
                (case (case categorization_session st1 of
                         None \<Rightarrow> Inr st1
                       | Some sess \<Rightarrow>
                           (case tickers_of items of
                              Inl e \<Rightarrow> Inl e
                            | Inr ts \<Rightarrow>
                                Inr (st1\<lparr>categorization_session :=
                                          Some (sess\<lparr>funds_needing_input := ts,
                                                     current_fund_index := 0\<rparr>)\<rparr>))) of
                   Inl e \<Rightarrow> (st1, [], Some e)
                 | Inr st2 \<Rightarrow>
                     (let first_fund = hd items in
                      case py_getitem first_fund ''ticker'' of
                        Inl e \<Rightarrow> (st2, [], Some e)
                      | Inr t \<Rightarrow>
                          (case py_getitem first_fund ''fund_name'' of
                             Inl e \<Rightarrow> (st2, [], Some e)
                           | Inr n \<Rightarrow>
                               then_yield
                                 [create_message (stamp ev k) st2 CHAT_RESPONSE None
                                    [(''message'', PStr (''Let'' @ apostrophe @ ''s start with **''
                                        @ fmt ev t @ ''** ('' @ fmt ev n
                                        @ ''). I need your help with the following:'')),
                                     (''message_type'', PStr ''info'')]]
                                 (send_next_categorization_question ev (k + 1) st2))))
            | PDict kvs \<Rightarrow>
                (st1, [], Some (if categorization_session st1 = None then KeyError else TypeError))
            | _ \<Rightarrow> (st1, [], Some TypeError)))"

text \<open>
  The loop \<open>for classification_dict in classifications\<close> of
  \<open>_handle_classification_completion\<close>: construct a FundCategorization from each dict
  and add it to the session.
\<close>

fun add_classifications ::
  "env \<Rightarrow> pyval list \<Rightarrow> CategorizationSession \<Rightarrow> CategorizationSession \<times> py_error option" where
  "add_classifications ev [] s = (s, None)"
| "add_classifications ev (d # ds) s =
     (case d of
        PDict kvs \<Rightarrow>
          (case FundCategorization_init (coerce ev) (utcnow ev) kvs of
             Inl e \<Rightarrow> (s, Some e)
           | Inr fund_categorization \<Rightarrow>
               (case add_fund_categorization (utcnow ev) fund_categorization s of
                  (s', Some e) \<Rightarrow> (s', Some e)
                | (s', None) \<Rightarrow> add_classifications ev ds s'))
      | _ \<Rightarrow> (s, Some TypeError))"

text \<open>Iterating \<open>classifications\<close>: a list, or an empty string or dict; anything else fails.\<close>

definition update_session ::
  "env \<Rightarrow> pydict \<Rightarrow> CategorizationSession \<Rightarrow> CategorizationSession \<times> py_error option" where
  "update_session ev categorization_data s =
     (case get_or (map_of categorization_data ''classifications'') (PList []) of
        PList ds \<Rightarrow> add_classifications ev ds s
      | PStr txt \<Rightarrow> (s, if txt = [] then None else Some TypeError)
      | PDict kvs \<Rightarrow> (s, if kvs = [] then None else Some TypeError)
      | _ \<Rightarrow> (s, Some TypeError))"

text \<open>\<open>needs_review > 0 or avg_confidence < 0.8\<close>.\<close>

definition review_needed :: "pyval \<Rightarrow> pyval \<Rightarrow> py_error + bool" where
  "review_needed needs_review avg_confidence =
     (case py_gt needs_review 0 of
        Inl e \<Rightarrow> Inl e
      | Inr True \<Rightarrow> Inr True
      | Inr False \<Rightarrow> py_lt avg_confidence (8 / 10))"

text \<open>\<open>_handle_classification_completion\<close>.\<close>

definition handle_classification_completion ::
  "env \<Rightarrow> nat \<Rightarrow> ChatOrchestrator \<Rightarrow> AgentMessage \<Rightarrow> outcome" where
  "handle_classification_completion ev k st message =
     (let st1 = st\<lparr>conversation_stage := CLASSIFICATION_COMPLETED\<rparr> in
      case get_or (map_of (payload message) ''categorization_data'') (PDict []) of
        PDict categorization_data \<Rightarrow>
          (let summary = get_or (map_of categorization_data ''summary'') (PDict []) in
           case (case categorization_session st1 of
                   None \<Rightarrow> (st1, None)
                 | Some sess \<Rightarrow>
                     (case update_session ev categorization_data sess of
                        (sess', e) \<Rightarrow> (st1\<lparr>categorization_session := Some sess'\<rparr>, e))) of
             (st2, Some e) \<Rightarrow> (st2, [], Some e)
           | (st2, None) \<Rightarrow>
               (case summary of
                  PDict sm \<Rightarrow>
                    (let needs_review = get_or (map_of sm ''requires_user_input'') (PInt 0);
                         avg_confidence = get_or (map_of sm ''average_confidence'') (PFloat 0)
                     in case review_needed needs_review avg_confidence of
                          Inl e \<Rightarrow> (st2, [], Some e)
                        | Inr True \<Rightarrow>
                            (let st3 = st2\<lparr>conversation_stage := USER_REVIEW_NEEDED\<rparr> in
                             then_yield
                               [create_message (stamp ev k) st3 CHAT_RESPONSE None
                                  [(''message'', PStr (bar_chart @ '' I'' @ apostrophe
                                      @ ''ve analyzed your funds! I found '' @ fmt ev needs_review
                                      @ '' funds that need your input for accurate categorization. Let me show you the results and ask for your guidance where needed.'')),
                                   (''message_type'', PStr ''info'')]]
                               (start_user_review_process ev (k + 1) st3 categorization_data))
                        | Inr False \<Rightarrow>
                            (let st3 = st2\<lparr>conversation_stage := CATEGORIZATION_COMPLETE\<rparr> in
                             case map_of sm ''total_funds'' of
                               None \<Rightarrow> (st3, [], Some KeyError)
                             | Some total_v \<Rightarrow>
                                 (st3,
                                  [create_message (stamp ev k) st3 CHAT_RESPONSE None
                                     [(''message'', PStr (party_popper @ '' Excellent! I'' @ apostrophe
                                         @ ''ve successfully categorized all '' @ fmt ev total_v
                                         @ '' funds with high confidence. Here are your results:'')),
                                      (''message_type'', PStr ''success'')],
                                   create_categorization_results_message (stamp ev (k + 1)) st3
                                     (PDict categorization_data)],
                                  None)))
                | _ \<Rightarrow> (st2, [], Some AttributeError)))
      | _ \<Rightarrow> (st1, [], Some AttributeError))"

subsection \<open>Sample orchestrator states and messages\<close>


definition empty_session :: CategorizationSession where
  "empty_session = \<lparr>cs_session_id = ''s1'', cs_portfolio_items = [], fund_categorizations = [],
     current_stage = ''researching'', funds_needing_input = [], current_fund_index = 0,
     total_funds = 1, categorized_funds = 0, high_confidence_funds = 0, cs_updated_at = 0\<rparr>"

definition sample_orchestrator :: ChatOrchestrator where
  "sample_orchestrator = \<lparr>agent_type = CHAT_ORCHESTRATOR, agent_session_id = ''s1'',
     is_active = True, conversation_stage = CLASSIFICATION_STARTED, processing_session = None,
     categorization_session = Some empty_session,
     agent_instances = [Agent INTAKE, Named ''DEEP_RESEARCH'', Named ''CLASSIFICATION''],
     workflow_mode = ''categorization''\<rparr>"


text \<open>
  The classification of VTI as a known fund, and the completion message the
  classification agent builds from it (\<open>process\<close>, "Prepare categorization data").
\<close>

definition vti_result :: ClassificationResult where
  "vti_result = \<lparr>cr_ticker = PStr ''VTI'', cr_fund_name = PStr ''Vanguard Total Stock Market ETF'',
     cr_asset_class = PStr ''Equity'', cr_asset_class_confidence = PFloat (95 / 100),
     cr_equity_region = PStr ''US'', cr_equity_style = PStr ''Blend'', cr_equity_size = PStr ''Large'',
     cr_fixed_income_type = PNone, cr_fixed_income_duration = PNone,
     cr_research_sources = PList [], cr_key_data_points = PDict [],
     cr_morningstar_category = PNone, cr_classification_method = PStr ''known_fund'',
     cr_reasoning = PStr ''Known fund: Total US stock market'',
     cr_alternative_classifications = PList [], cr_manual_override = PBool False,
     cr_override_reason = PNone\<rparr>"

definition vti_completion :: AgentMessage where
  "vti_completion = \<lparr>mtype = DATA_PROCESSED, sender = Some CHAT_ORCHESTRATOR,
     recipient = Some (Agent CHAT_ORCHESTRATOR),
     payload =
       [(''type'', PStr ''categorization_results''),
        (''portfolio_items'', PList []),
        (''categorization_data'', PDict
           [(''classifications'', PList [PDict (to_dict vti_result)]),
            (''summary'', PDict
               [(''total_funds'', PInt 1),
                (''average_confidence'', PFloat (95 / 100)),
                (''high_confidence_percentage'', PFloat 100),
                (''asset_class_breakdown'', PDict [(''Equity'', PInt 1)]),
                (''requires_user_input'', PInt 0)]),
            (''interaction_needed'', PList [])]),
        (''next_action'', PStr ''finalize'')],
     session_id = ''s1'', timestamp = 60, message_id = ''m2''\<rparr>"

text \<open>The review of the one fund \<open>XYZQ\<close> is over: the pointer is past the end of the list.\<close>

definition reviewed_session :: CategorizationSession where
  "reviewed_session = empty_session\<lparr>fund_categorizations := [(''XYZQ'', sample_fund)],
     funds_needing_input := [PStr ''XYZQ''], current_fund_index := 1\<rparr>"

definition review_done :: ChatOrchestrator where
  "review_done = sample_orchestrator\<lparr>conversation_stage := CATEGORIZATION_REVIEW,
     categorization_session := Some reviewed_session\<rparr>"

definition review_of_nothing :: ChatOrchestrator where
  "review_of_nothing = sample_orchestrator\<lparr>conversation_stage := CATEGORIZATION_REVIEW\<rparr>"

text \<open>Every message of the list carries the session id of the agent.\<close>

definition from_agent :: "'a BaseAgent_scheme \<Rightarrow> AgentMessage list \<Rightarrow> bool" where
  "from_agent self ms = list_all (\<lambda>m. session_id m = agent_session_id self) ms"


section \<open>Properties of the confidence scorer\<close>

lemma default_weights_total: "sum_list (map snd default_weights) = 13 / 10"
  by (simp add: default_weights_def)

lemma weighted_loop_default:
  "weighted_loop f default_weights (0, 0) = Inr (weighted_sum f, 13 / 10)"
  by (simp add: default_weights_def getattr_factor_def weighted_sum_def)

lemma get_weighted_score_default:
  "get_weighted_score f None = Inr (weighted_sum f / (13 / 10))"
  by (simp add: get_weighted_score_def weighted_loop_default)

lemma weighted_sum_bounds:
  assumes "factors_in_unit f"
  shows "0 \<le> weighted_sum f" and "weighted_sum f \<le> 13 / 10"
proof -
  from assms have b:
    "0 \<le> source_reliability f" "source_reliability f \<le> 1"
    "0 \<le> source_diversity f" "source_diversity f \<le> 1"
    "0 \<le> data_freshness f" "data_freshness f \<le> 1"
    "0 \<le> pattern_match_score f" "pattern_match_score f \<le> 1"
    "0 \<le> pattern_specificity f" "pattern_specificity f \<le> 1"
    "0 \<le> method_agreement f" "method_agreement f \<le> 1"
    "0 \<le> historical_accuracy f" "historical_accuracy f \<le> 1"
    "0 \<le> data_completeness f" "data_completeness f \<le> 1"
    "0 \<le> data_consistency f" "data_consistency f \<le> 1"
    "0 \<le> domain_specificity f" "domain_specificity f \<le> 1"
    "0 \<le> contextual_coherence f" "contextual_coherence f \<le> 1"
    by (simp_all add: factors_in_unit_def)
  show "0 \<le> weighted_sum f" unfolding weighted_sum_def using b by simp
  show "weighted_sum f \<le> 13 / 10" unfolding weighted_sum_def using b by simp
qed

lemma weighted_score_in_unit:
  assumes "factors_in_unit f"
  shows "\<exists>s. get_weighted_score f None = Inr s \<and> 0 \<le> s \<and> s \<le> 1"
proof -
  have "0 \<le> weighted_sum f / (13 / 10)"
    using weighted_sum_bounds(1)[OF assms] by simp
  moreover have "weighted_sum f / (13 / 10) \<le> 1"
    using weighted_sum_bounds(2)[OF assms] by simp
  ultimately show ?thesis
    using get_weighted_score_default by blast
qed

lemma consistency_penalty_nonneg: "0 \<le> calculate_consistency_penalty cd"
  by (simp add: calculate_consistency_penalty_def Let_def)

text \<open>The two clamps alone bound the final score, whatever the weighted sum is.\<close>

lemma final_confidence_clamped:
  "\<exists>c. final_confidence f cd = Inr c \<and> 0 \<le> c \<and> c \<le> 1"
proof -
  define c where
    "c = max 0 (min 1 (weighted_sum f / (13 / 10) * (1 + get_method_confidence_bonus cd))
                - calculate_consistency_penalty cd)"
  have "final_confidence f cd = Inr c"
    by (simp add: final_confidence_def get_weighted_score_default c_def Let_def)
  moreover have "0 \<le> c" by (simp add: c_def)
  moreover have "c \<le> 1"
    using consistency_penalty_nonneg[of cd] by (simp add: c_def)
  ultimately show ?thesis by blast
qed

text \<open>
  Claim C1, as the code has it. The eleven default weights sum to 1.30 (not 1.20); the
  weighted score divides by that total. For factors in \<open>[0,1]\<close> the weighted score
  is in \<open>[0,1]\<close>, it is 0 for the all-zero and 1 for the all-one vector, and the
  confidence returned by \<open>calculate_classification_confidence\<close> (weighted score times
  one plus the method bonus, capped at 1, minus the consistency penalty, floored at 0)
  is in \<open>[0,1]\<close> too.
\<close>

theorem C1_score_in_unit_interval:
  assumes "factors_in_unit (assess cd rd)"
  shows "sum_list (map snd default_weights) = 13 / 10
    \<and> (\<exists>s. get_weighted_score (assess cd rd) None = Inr s \<and> 0 \<le> s \<and> s \<le> 1)
    \<and> (\<exists>c. calculate_classification_confidence assess cd rd = Inr (c, assess cd rd)
             \<and> 0 \<le> c \<and> c \<le> 1)
    \<and> get_weighted_score all_zero None = Inr 0
    \<and> get_weighted_score all_one None = Inr 1"
proof -
  obtain c where c: "final_confidence (assess cd rd) cd = Inr c" "0 \<le> c" "c \<le> 1"
    using final_confidence_clamped by blast
  have "calculate_classification_confidence assess cd rd = Inr (c, assess cd rd)"
    by (simp add: calculate_classification_confidence_def Let_def c(1))
  with c have conf: "\<exists>c. calculate_classification_confidence assess cd rd = Inr (c, assess cd rd)
             \<and> 0 \<le> c \<and> c \<le> 1"
    by blast
  have z: "get_weighted_score all_zero None = Inr 0"
    by (simp add: get_weighted_score_default weighted_sum_def all_zero_def)
  have o: "get_weighted_score all_one None = Inr 1"
    by (simp add: get_weighted_score_default weighted_sum_def all_one_def)
  show ?thesis
    using default_weights_total weighted_score_in_unit[OF assms] conf z o by blast
qed

theorem C1_score_in_unit_interval_witness:
  "factors_in_unit all_one
   \<and> (\<exists>c. calculate_classification_confidence (\<lambda>c r. all_one) sample_cd () = Inr (c, all_one)
          \<and> 0 \<le> c \<and> c \<le> 1)
   \<and> calculate_classification_confidence (\<lambda>c r. all_one) sample_cd () = Inr (8 / 10, all_one)"
proof -
  have u: "factors_in_unit all_one"
    by (simp add: factors_in_unit_def all_one_def)
  have v: "calculate_classification_confidence (\<lambda>c r. all_one) sample_cd () = Inr (8 / 10, all_one)"
    by (simp add: calculate_classification_confidence_def final_confidence_def
        get_weighted_score_default weighted_sum_def all_one_def sample_cd_def
        get_method_confidence_bonus_def calculate_consistency_penalty_def get_or_def
        any_in_def lower_def lower_char_def Let_def)
  from C1_score_in_unit_interval[of "\<lambda>c r. all_one" sample_cd "()"] u v
  show ?thesis by simp
qed

theorem C1_weights_sum_counterexample:
  "sum_list (map snd default_weights) \<noteq> 12 / 10"
  by (simp add: default_weights_def)

text \<open>
  Claim C7, as the code has it. The source-diversity factor is 0 for no source and the
  fixed value 0.3 for exactly one source (not 1/5 + 0); for two or more sources it is
  \<open>min(1, unique_categories/5 + min(0.2, 0.05 * (source_count - 1)))\<close>, every source
  falling into one of the five categories.
\<close>

theorem C7_source_diversity:
  "assess_source_diversity sources =
     (if sources = [] then 0
      else if length sources = 1 then 3 / 10
      else spec_source_diversity sources)
   \<and> list_all (\<lambda>s. source_type s \<in>
         {''financial_data'', ''regulatory'', ''fund_company'', ''news'', ''general''}) sources"
proof -
  have "list_all (\<lambda>s. source_type s \<in>
         {''financial_data'', ''regulatory'', ''fund_company'', ''news'', ''general''}) sources"
    by (simp add: list_all_iff source_type_def Let_def)
  moreover have "assess_source_diversity sources =
     (if sources = [] then 0
      else if length sources = 1 then 3 / 10
      else spec_source_diversity sources)"
  proof (cases "2 \<le> length sources")
    case True
    then show ?thesis
      by (auto simp add: assess_source_diversity_def spec_source_diversity_def Let_def
          of_nat_diff algebra_simps)
  next
    case False
    then have "length sources = 0 \<or> length sources = 1" by arith
    then show ?thesis by (auto simp add: assess_source_diversity_def)
  qed
  ultimately show ?thesis by blast
qed

theorem C7_one_source_counterexample:
  "assess_source_diversity [''https://www.sec.gov/filing''] = 3 / 10
   \<and> spec_source_diversity [''https://www.sec.gov/filing''] = 1 / 5"
  by (simp add: assess_source_diversity_def spec_source_diversity_def)


section \<open>Properties of the research cache\<close>



















lemma evict_from_memory_frame:
  "max_memory_size (evict_from_memory st) = max_memory_size st
   \<and> default_ttl (evict_from_memory st) = default_ttl st
   \<and> disk (evict_from_memory st) = disk st
   \<and> stat_cleanups (evict_from_memory st) = stat_cleanups st
   \<and> set (memory_cache (evict_from_memory st)) \<subseteq> set (memory_cache st)
   \<and> length (memory_cache (evict_from_memory st)) \<le> length (memory_cache st)"
  by (auto simp add: evict_from_memory_def remove_from_memory_def dict_del_def Let_def
      le_SucI split: list.splits option.splits)

lemma evict_until_fits_frame:
  "max_memory_size (evict_until_fits sz st) = max_memory_size st
   \<and> default_ttl (evict_until_fits sz st) = default_ttl st
   \<and> disk (evict_until_fits sz st) = disk st
   \<and> stat_cleanups (evict_until_fits sz st) = stat_cleanups st
   \<and> set (memory_cache (evict_until_fits sz st)) \<subseteq> set (memory_cache st)
   \<and> length (memory_cache (evict_until_fits sz st)) \<le> length (memory_cache st)"
proof (induction sz st rule: evict_until_fits.induct)
  case (1 sz st)
  show ?case
  proof (cases "memory_size st + sz > max_memory_size st \<and> length (memory_cache st) > 0")
    case True
    then have u: "evict_until_fits sz st = evict_until_fits sz (evict_from_memory st)"
      using evict_until_fits.simps[of sz st] by simp
    show ?thesis
      unfolding u using 1[OF True] evict_from_memory_frame[of st] by auto
  next
    case False
    then have "evict_until_fits sz st = st"
      using evict_until_fits.simps[of sz st] by auto
    then show ?thesis by simp
  qed
qed

lemma map_of_dict_set_other: "k \<noteq> k' \<Longrightarrow> map_of (dict_set k v kvs) k' = map_of kvs k'"
  by (induction kvs) auto

lemma dict_set_single_key:
  "kvs = [] \<or> map fst kvs = [k] \<Longrightarrow> map fst (dict_set k v kvs) = [k]"
  by (cases kvs) auto

lemma evict_keeps_single_key:
  assumes "memory_cache st = [] \<or> map fst (memory_cache st) = [k]"
  shows "memory_cache (evict_until_fits sz st) = [] \<or> map fst (memory_cache (evict_until_fits sz st)) = [k]"
proof -
  let ?m = "memory_cache (evict_until_fits sz st)"
  have s: "set ?m \<subseteq> set (memory_cache st)" and l: "length ?m \<le> length (memory_cache st)"
    using evict_until_fits_frame[of sz st] by simp_all
  show ?thesis
  proof (cases ?m)
    case Nil then show ?thesis by simp
  next
    case (Cons x xs)
    with l assms have "length (memory_cache st) = 1" "xs = []" by auto
    moreover from Cons s have "x \<in> set (memory_cache st)" by auto
    ultimately show ?thesis using assms Cons by (cases "memory_cache st") auto
  qed
qed

lemma cache_set_small_never_swept:
  assumes "never_swept st"
  shows "never_swept (cache_set (\<lambda>v. 5) now v ''a'' None None st)"
proof -
  define entry where "entry = \<lparr>entry_key = ''a'', entry_value = v, created_at = now,
      expires_at = now + default_ttl st, access_count = 1, last_accessed = now,
      tags = [], size_bytes = 5\<rparr>"
  define st1 where "st1 = st\<lparr>disk := dict_set ''a'' entry (disk st)\<rparr>"
  define st2 where "st2 = add_to_memory (\<lambda>v. 5) now ''a'' v (asdict entry) st1"
  have mx: "max_memory_size st = 1000" using assms by (simp add: never_swept_def)
  have i1: "never_swept st1"
    using assms by (simp add: never_swept_def st1_def map_of_dict_set_other)
  let ?e = "evict_until_fits 5 st1"
  have fr: "max_memory_size ?e = max_memory_size st1" "disk ?e = disk st1"
     "stat_cleanups ?e = stat_cleanups st1"
    using evict_until_fits_frame[of 5 st1] by simp_all
  have k: "memory_cache ?e = [] \<or> map fst (memory_cache ?e) = [''a'']"
    using i1 by (intro evict_keeps_single_key) (simp add: never_swept_def)
  have sz: "get_or (ed_size_bytes (asdict entry)) 5 = 5" by (simp add: asdict_def entry_def get_or_def)
  have m2: "map fst (memory_cache st2) = [''a'']"
    unfolding st2_def add_to_memory_def Let_def sz using dict_set_single_key[OF k] by simp
  have i2: "never_swept st2"
    using i1 m2 fr unfolding st2_def add_to_memory_def Let_def sz
    by (simp add: never_swept_def)
  have "length (memory_cache st2) = 1" using m2 by (metis length_map length_Cons list.size(3) One_nat_def)
  then have "cache_set (\<lambda>v. 5) now v ''a'' None None st = st2"
    by (simp add: cache_set_def Let_def get_or_def mx st2_def st1_def entry_def)
  then show ?thesis using i2 by simp
qed

lemma rewrite_same_key_never_swept: "never_swept (rewrite_same_key n stale_disk)"
proof (induction n)
  case 0
  show ?case by (simp add: never_swept_def stale_disk_def)
next
  case (Suc n)
  then show ?case by (simp add: cache_set_small_never_swept)
qed

lemma two_big_writes:
  "stat_cleanups (cache_set (\<lambda>v. 500) 10 0 ''a'' (Some 5) None stale_disk) = 1
  \<and> stat_cleanups (cache_set (\<lambda>v. 500) 20 0 ''b'' None None
        (cache_set (\<lambda>v. 500) 10 0 ''a'' (Some 5) None stale_disk)) = 2"
  by (simp add: cache_set_def stale_disk_def ent_def get_or_def cleanup_expired_def Let_def)

text \<open>
  Claim C6 on two write sequences. \<open>set\<close> sweeps when \<open>len(self.memory_cache) % 100 == 0\<close>
  after the write. With values above the per-item cap the memory tier stays empty and
  each of two consecutive writes sweeps; with one small key written again and again the
  memory tier holds one entry, and no number of writes ever sweeps: the expired row
  \<open>old\<close> stays on disk.
\<close>

theorem C6_sweep_not_every_n_writes:
  "stat_cleanups (cache_set (\<lambda>v. 500) 10 0 ''a'' (Some 5) None stale_disk) = 1
  \<and> stat_cleanups (cache_set (\<lambda>v. 500) 20 0 ''b'' None None
        (cache_set (\<lambda>v. 500) 10 0 ''a'' (Some 5) None stale_disk)) = 2
  \<and> (\<forall>n. stat_cleanups (rewrite_same_key n stale_disk) = 0
        \<and> map_of (disk (rewrite_same_key n stale_disk)) ''old'' = Some (ent ''old'' 5 1 0 10))"
  using two_big_writes rewrite_same_key_never_swept by (simp add: never_swept_def)

lemma map_of_dict_set_same: "map_of (dict_set k v kvs) k = Some v"
  by (induction kvs) auto

lemma dict_set_has_key: "k \<in> fst ` set (dict_set k v kvs)"
  using map_of_dict_set_same[of k v kvs] by (metis domI dom_map_of_conv_image_fst)

lemma remove_from_memory_absent:
  "map_of (memory_cache st) key = None \<Longrightarrow> remove_from_memory key st = st"
  by (simp add: remove_from_memory_def)

lemma add_to_memory_disk: "disk (add_to_memory cs now key v ed st) = disk st"
  using evict_until_fits_frame[of "get_or (ed_size_bytes ed) (cs v)" st]
  by (simp add: add_to_memory_def Let_def)

lemma add_to_memory_resident:
  "key \<in> fst ` set (memory_cache (add_to_memory cs now key v ed st))"
  by (simp add: add_to_memory_def Let_def dict_set_has_key)

text \<open>
  A memory miss that finds an unexpired row: the value is returned, the row's counter
  goes up by one, and the entry is resident afterwards exactly when the new count is
  at least 3, whatever its size.
\<close>

lemma cache_get_disk_hit:
  assumes "map_of (memory_cache st) key = None"
    and "map_of (disk st) key = Some row"
    and "expires_at row > now"
  shows "fst (cache_get cs now key st) = Some (entry_value row)"
    and "map_of (disk (snd (cache_get cs now key st))) key
           = Some (row\<lparr>access_count := access_count row + 1, last_accessed := now\<rparr>)"
    and "key \<in> fst ` set (memory_cache (snd (cache_get cs now key st)))
           \<longleftrightarrow> access_count row + 1 \<ge> 3"
proof -
  have nk: "key \<notin> fst ` set (memory_cache st)"
    using assms(1) by (simp add: map_of_eq_None_iff)
  show "fst (cache_get cs now key st) = Some (entry_value row)"
    using assms by (simp add: cache_get_def remove_from_memory_absent Let_def)
  show "map_of (disk (snd (cache_get cs now key st))) key
           = Some (row\<lparr>access_count := access_count row + 1, last_accessed := now\<rparr>)"
    using assms
    by (simp add: cache_get_def remove_from_memory_absent Let_def add_to_memory_disk
        map_of_dict_set_same)
  show "key \<in> fst ` set (memory_cache (snd (cache_get cs now key st)))
           \<longleftrightarrow> access_count row + 1 \<ge> 3"
    using assms nk
    by (simp add: cache_get_def remove_from_memory_absent Let_def add_to_memory_resident)
qed

lemma remove_from_memory_disk: "disk (remove_from_memory key st) = disk st"
  by (simp add: remove_from_memory_def split: option.splits)

text \<open>An entry whose \<open>expires_at\<close> is in the past, in either tier, is not returned.\<close>

lemma cache_get_expired:
  assumes "list_all (\<lambda>kv. fst kv = key \<longrightarrow> expires_at (snd kv) < now) (memory_cache st)"
    and "list_all (\<lambda>kv. fst kv = key \<longrightarrow> expires_at (snd kv) < now) (disk st)"
  shows "fst (cache_get cs now key st) = None"
proof -
  have m: "\<And>e. map_of (memory_cache st) key = Some e \<Longrightarrow> is_expired now e"
    using assms(1) by (auto simp add: list_all_iff is_expired_def dest!: map_of_SomeD)
  have d: "\<And>r. map_of (disk st) key = Some r \<Longrightarrow> \<not> expires_at r > now"
    using assms(2) by (auto simp add: list_all_iff dest!: map_of_SomeD)
  show ?thesis
    using m d
    by (auto simp add: cache_get_def Let_def remove_from_memory_disk split: option.splits)
qed


section \<open>Properties of the manual override\<close>
















section \<open>Properties of the orchestrator\<close>

lemma init_needs_confidence:
  "map_of d ''asset_class_confidence'' = None \<Longrightarrow> FundCategorization_init co now d = Inl ValidationError"
  by (simp add: FundCategorization_init_def validate_fields_def field_value_def split: Option.bind_splits)

lemma to_dict_rejected: "FundCategorization_init co now (to_dict c) = Inl ValidationError"
  by (rule init_needs_confidence) (simp add: to_dict_def)



lemma session_id_init [simp]:
  "session_id (AgentMessage_init ty snd_by rcp d sid ts mid stmp) = sid"
  by (simp add: AgentMessage_init_def)

lemma session_id_create_message [simp]:
  "session_id (create_message stmp self ty rcp d) = agent_session_id self"
  by (simp add: create_message_def)

lemma session_id_emit_error [simp]:
  "session_id (emit_error stmp self err details) = agent_session_id self"
  by (simp add: emit_error_def Let_def)

lemma session_id_results_message [simp]:
  "session_id (create_categorization_results_message stmp st cd) = agent_session_id st"
  by (simp add: create_categorization_results_message_def)


lemma then_yield_parts [simp]:
  "fst (then_yield ms r) = fst r"
  "fst (snd (then_yield ms r)) = ms @ fst (snd r)"
  "snd (snd (then_yield ms r)) = snd (snd r)"
  by (simp_all add: then_yield_def split: prod.splits)

lemma from_agent_append [simp]: "from_agent a (ms @ ms') = (from_agent a ms \<and> from_agent a ms')"
  by (simp add: from_agent_def)

lemma from_agent_simps [simp]:
  "from_agent a [] = True"
  "from_agent a (m # ms) = (session_id m = agent_session_id a \<and> from_agent a ms)"
  by (simp_all add: from_agent_def)









lemma send_next_exhausted_keeps_state:
  assumes "categorization_session st = Some sess"
    and "\<not> truthy (get_next_fund_needing_input sess)"
  shows "fst (send_next_categorization_question ev k st) = st"
  using assms
  by (simp add: send_next_categorization_question.simps[of ev k st] Let_def)

lemma review_done_exhausted:
  "categorization_session review_done = Some reviewed_session"
  "get_next_fund_needing_input reviewed_session = PNone"
  "fund_categorizations reviewed_session \<noteq> []"
  by (simp_all add: review_done_def reviewed_session_def get_next_fund_needing_input_def)

text \<open>
  Claim C3 at two orchestrators in the review stage whose pointer is past the end of
  \<open>funds_needing_input\<close>. The handler yields the closing message and leaves the
  orchestrator as it is: the conversation stage stays \<open>CATEGORIZATION_REVIEW\<close>. When
  the session holds a categorization, building the final results fails with
  AttributeError (\<open>FundCategorization\<close> has no \<open>to_dict\<close>) and no results message is
  yielded; when it holds none, the results message follows.
\<close>

theorem C3_review_end_keeps_stage:
  "conversation_stage review_done = CATEGORIZATION_REVIEW
   \<and> fst (send_next_categorization_question ev 0 review_done) = review_done
   \<and> length (fst (snd (send_next_categorization_question ev 0 review_done))) = 1
   \<and> snd (snd (send_next_categorization_question ev 0 review_done)) = Some AttributeError
   \<and> conversation_stage review_of_nothing = CATEGORIZATION_REVIEW
   \<and> fst (send_next_categorization_question ev 0 review_of_nothing) = review_of_nothing
   \<and> map (\<lambda>m. map_of (payload m) ''type'')
        (fst (snd (send_next_categorization_question ev 0 review_of_nothing)))
      = [None, Some (PStr ''categorization_complete'')]
   \<and> snd (snd (send_next_categorization_question ev 0 review_of_nothing)) = None"
proof -
  have a: "send_next_categorization_question ev 0 review_done =
     (review_done,
      [create_message (stamp ev 0) review_done CHAT_RESPONSE None
         [(''message'', PStr (party_popper @ '' That'' @ apostrophe
              @ ''s all the input I needed! Your portfolio categorization is now complete.'')),
          (''message_type'', PStr ''success'')]],
      Some AttributeError)"
    by (simp add: send_next_categorization_question.simps[of ev 0 review_done]
        review_done_exhausted then_yield_def Let_def)
  have s: "categorization_session review_of_nothing = Some empty_session"
    "get_next_fund_needing_input empty_session = PNone"
    "fund_categorizations empty_session = []"
    by (simp_all add: review_of_nothing_def sample_orchestrator_def empty_session_def
        get_next_fund_needing_input_def)
  have b: "send_next_categorization_question ev 0 review_of_nothing =
     (review_of_nothing,
      [create_message (stamp ev 0) review_of_nothing CHAT_RESPONSE None
         [(''message'', PStr (party_popper @ '' That'' @ apostrophe
              @ ''s all the input I needed! Your portfolio categorization is now complete.'')),
          (''message_type'', PStr ''success'')],
       create_categorization_results_message (stamp ev 1) review_of_nothing
         (PDict [(''classifications'', PList []), (''summary'', PDict (get_summary_empty empty_session))])],
      None)"
    by (simp add: send_next_categorization_question.simps[of ev 0 review_of_nothing]
        s then_yield_def Let_def)
  have c: "conversation_stage review_done = CATEGORIZATION_REVIEW"
    "conversation_stage review_of_nothing = CATEGORIZATION_REVIEW"
    by (simp_all add: review_done_def review_of_nothing_def)
  show ?thesis
    unfolding a b using c
    by (simp add: create_message_def AgentMessage_init_def create_categorization_results_message_def)
qed

lemma completion_fails_on_agent_results:
  assumes "categorization_session st = Some sess"
    and "map_of (payload message) ''categorization_data'' = Some (PDict cd)"
    and "map_of cd ''classifications'' = Some (PList (PDict (to_dict c) # rest))"
  shows "handle_classification_completion ev k st message
           = (st\<lparr>conversation_stage := CLASSIFICATION_COMPLETED\<rparr>, [], Some ValidationError)"
proof -
  have u: "update_session ev cd sess = (sess, Some ValidationError)"
    by (simp add: update_session_def assms(3) get_or_def to_dict_rejected)
  have e: "st\<lparr>conversation_stage := CLASSIFICATION_COMPLETED, categorization_session := Some sess\<rparr>
           = st\<lparr>conversation_stage := CLASSIFICATION_COMPLETED\<rparr>"
    using assms(1) by (cases st) simp
  show ?thesis
    unfolding handle_classification_completion_def Let_def
    by (simp add: assms(1,2) get_or_def u e)
qed

text \<open>
  Claim C2 at the completion message the classification agent builds for the known
  fund VTI (no fund to review, average confidence 0.95), with a categorization session
  in place, whatever the per-field validation is. The dicts of
  \<open>ClassificationResult.to_dict\<close> carry the key \<open>confidence\<close>, not the required
  \<open>asset_class_confidence\<close>, so constructing the FundCategorization raises
  ValidationError before the handler reaches its decision: the stage stays
  \<open>CLASSIFICATION_COMPLETED\<close> and nothing is yielded.
\<close>

theorem C2_completion_of_agent_results:
  "handle_classification_completion ev 0 sample_orchestrator vti_completion
     = (sample_orchestrator\<lparr>conversation_stage := CLASSIFICATION_COMPLETED\<rparr>, [],
        Some ValidationError)"
proof -
  have s: "categorization_session sample_orchestrator = Some empty_session"
    by (simp add: sample_orchestrator_def)
  have p: "map_of (payload vti_completion) ''categorization_data'' = Some (PDict
           [(''classifications'', PList [PDict (to_dict vti_result)]),
            (''summary'', PDict
               [(''total_funds'', PInt 1),
                (''average_confidence'', PFloat (95 / 100)),
                (''high_confidence_percentage'', PFloat 100),
                (''asset_class_breakdown'', PDict [(''Equity'', PInt 1)]),
                (''requires_user_input'', PInt 0)]),
            (''interaction_needed'', PList [])])"
    by (simp add: vti_completion_def)
  show ?thesis
    by (rule completion_fails_on_agent_results[OF s p]) simp
qed

text \<open>
  Without a categorization session nothing is constructed, and the handler decides as
  the transition table says.
\<close>

lemma completion_decision_without_session:
  assumes "categorization_session st = None"
    and "map_of (payload message) ''categorization_data'' = Some (PDict cd)"
    and "map_of cd ''summary'' = Some (PDict sm)"
    and "map_of sm ''requires_user_input'' = Some (PInt n)"
    and "map_of sm ''average_confidence'' = Some (PFloat a)"
    and "map_of sm ''total_funds'' = Some total_v"
  shows "handle_classification_completion ev k st message =
     (if n > 0 \<or> a < 8 / 10 then
        then_yield
          [create_message (stamp ev k) (st\<lparr>conversation_stage := USER_REVIEW_NEEDED\<rparr>) CHAT_RESPONSE None
             [(''message'', PStr (bar_chart @ '' I'' @ apostrophe
                 @ ''ve analyzed your funds! I found '' @ fmt ev (PInt n)
                 @ '' funds that need your input for accurate categorization. Let me show you the results and ask for your guidance where needed.'')),
              (''message_type'', PStr ''info'')]]
          (start_user_review_process ev (k + 1) (st\<lparr>conversation_stage := USER_REVIEW_NEEDED\<rparr>) cd)
      else
        (st\<lparr>conversation_stage := CATEGORIZATION_COMPLETE\<rparr>,
         [create_message (stamp ev k) (st\<lparr>conversation_stage := CATEGORIZATION_COMPLETE\<rparr>) CHAT_RESPONSE None
            [(''message'', PStr (party_popper @ '' Excellent! I'' @ apostrophe
                @ ''ve successfully categorized all '' @ fmt ev total_v
                @ '' funds with high confidence. Here are your results:'')),
             (''message_type'', PStr ''success'')],
          create_categorization_results_message (stamp ev (k + 1))
            (st\<lparr>conversation_stage := CATEGORIZATION_COMPLETE\<rparr>) (PDict cd)],
         None))"
proof -
  have r: "review_needed (PInt n) (PFloat a) = Inr (n > 0 \<or> a < 8 / 10)"
    by (cases "n > 0") (simp_all add: review_needed_def py_gt_def py_lt_def)
  have g: "get_or (map_of (payload message) ''categorization_data'') (PDict []) = PDict cd"
    "get_or (map_of cd ''summary'') (PDict []) = PDict sm"
    "get_or (map_of sm ''requires_user_input'') (PInt 0) = PInt n"
    "get_or (map_of sm ''average_confidence'') (PFloat 0) = PFloat a"
    by (simp_all add: assms get_or_def)
  show ?thesis
  proof (cases "n > 0 \<or> a < 8 / 10")
    case True
    then show ?thesis
      unfolding handle_classification_completion_def Let_def
      by (simp add: g r assms(1))
  next
    case False
    then show ?thesis
      unfolding handle_classification_completion_def Let_def
      by (simp add: g r assms(1) assms(6))
  qed
qed

end
